theory Spec2Isabelle
  imports Main
begin

section \<open>The Kush tool chain of the clang driver\<close>

text \<open>
  A shallow embedding of \<^verbatim>\<open>clang/lib/Driver/ToolChains/Kush.cpp\<close>: the linker job
  constructor \<^verbatim>\<open>kush::Linker::ConstructJob\<close>, the tool chain constructor
  \<^verbatim>\<open>Kush::Kush\<close>, \<^verbatim>\<open>Kush::GetRuntimeLibType\<close>,
  \<^verbatim>\<open>Kush::AddClangSystemIncludeArgs\<close> and \<^verbatim>\<open>Kush::AddCXXStdlibLibArgs\<close>.

  An \<^verbatim>\<open>ArgStringList\<close> is a list of strings and \<^verbatim>\<open>push_back\<close> appends at its end.
  \<^verbatim>\<open>assert\<close> and \<^verbatim>\<open>llvm_unreachable\<close> are fatal: a function that can reach one
  returns a sum, with the failure on the left.
\<close>

subsection \<open>Data\<close>

type_synonym ArgStringList = "string list"

text \<open>
  An input of the job (\<^verbatim>\<open>InputInfo\<close>). The file only tests whether there is one and
  hands the first one, and the whole list, to helpers of the driver framework.
\<close>

type_synonym InputInfo = string

datatype LTOKind = LTOK_None | LTOK_Full | LTOK_Thin | LTOK_Unknown

datatype RuntimeLibType = RLT_CompilerRT | RLT_Libgcc

datatype CXXStdlibType = CST_Libcxx | CST_Libstdcxx

datatype DiagID = err_drv_invalid_rtlib_name

type_synonym Diagnostic = "DiagID \<times> string"

datatype error = AssertionFailed string | Unreachable string

text \<open>
  One parsed argument that carries a value (\<^verbatim>\<open>llvm::opt::Arg\<close>): the value, and the
  argument as the user spelled it (\<^verbatim>\<open>getAsString\<close>).
\<close>

record Arg =
  getValue :: string
  getAsString :: string

text \<open>
  The parsed driver arguments (\<^verbatim>\<open>llvm::opt::ArgList\<close>), as far as this file reads
  them. A boolean field is \<^verbatim>\<open>Args.hasArg\<close> of that option; \<^verbatim>\<open>hasArg(a, b)\<close> with two
  options is the disjunction. \<open>OPT_L\<close> and \<open>OPT_u\<close> hold, in command-line order, the
  argument strings that \<^verbatim>\<open>Args.AddAllArgs\<close> renders for the \<^verbatim>\<open>-L\<close> and \<^verbatim>\<open>-u\<close>
  options. \<open>OPT_rtlib_EQ\<close> is \<^verbatim>\<open>Args.getLastArg(OPT_rtlib_EQ)\<close>.
\<close>

record ArgList =
  OPT_shared :: bool
  OPT_pie :: bool
  OPT_s :: bool
  OPT_static :: bool
  OPT_rdynamic :: bool
  OPT_nostdlib :: bool
  OPT_nostartfiles :: bool
  OPT_nodefaultlibs :: bool
  OPT_static_libstdcxx :: bool
  OPT_nolibc :: bool
  OPT_nostdinc :: bool
  OPT_nobuiltininc :: bool
  OPT_nostdlibinc :: bool
  OPT_L :: "string list"
  OPT_u :: "string list"
  OPT_rtlib_EQ :: "Arg option"

text \<open>The fields of \<^verbatim>\<open>clang::driver::Driver\<close> that the file reads.\<close>

record Driver =
  SysRoot :: string
  ResourceDir :: string
  InstalledDir :: string
  Dir :: string
  CCCIsCXX :: bool
  LTOMode :: LTOKind

text \<open>The state of the \<^verbatim>\<open>ToolChain\<close> base object that the constructor extends.\<close>

record ToolChain =
  ProgramPaths :: "string list"
  FilePaths :: "string list"

text \<open>
  The functions of the driver framework that the file calls and that are not part of it
  (methods of the \<^verbatim>\<open>ToolChain\<close> base class, helpers of \<^verbatim>\<open>CommonArgs\<close>, and
  \<^verbatim>\<open>llvm::sys::path::append\<close>) are parameters. Each helper that receives
  \<^verbatim>\<open>CmdArgs\<close> by reference is taken to append to it; the field gives the strings it
  appends.
\<close>

record Host =
  GetLinkerPath :: string
  isPIEDefault :: "ArgList \<Rightarrow> bool"
  GetFilePath :: "string \<Rightarrow> string"
  ShouldLinkCXXStdlib :: "ArgList \<Rightarrow> bool"
  GetCXXStdlibType :: "ArgList \<Rightarrow> CXXStdlibType"
  FilePathLibArgs :: "string list \<Rightarrow> ArgList \<Rightarrow> string list"
  LTOOptions :: "ArgList \<Rightarrow> string \<Rightarrow> InputInfo \<Rightarrow> bool \<Rightarrow> string list"
  LinkerInputs :: "InputInfo list \<Rightarrow> ArgList \<Rightarrow> string list"
  RunTimeLibs :: "ArgList \<Rightarrow> string list"
  path_append :: "string \<Rightarrow> string list \<Rightarrow> string"
  SystemIncludeArgs :: "string \<Rightarrow> string list"

text \<open>What \<^verbatim>\<open>C.addCommand\<close> receives: the executable and its arguments.\<close>

record Command =
  Executable :: string
  Arguments :: ArgStringList

subsection \<open>Helpers of the driver framework\<close>

definition push_back :: "ArgStringList \<Rightarrow> string \<Rightarrow> ArgStringList" where
  "push_back CmdArgs s = CmdArgs @ [s]"

text \<open>\<^verbatim>\<open>Args.AddAllArgs(CmdArgs, Id)\<close>: the rendered arguments of one option, in order.\<close>

definition AddAllArgs :: "ArgStringList \<Rightarrow> string list \<Rightarrow> ArgStringList" where
  "AddAllArgs CmdArgs rendered = CmdArgs @ rendered"

text \<open>
  Modelled from the spec: \<^verbatim>\<open>Driver::isUsingLTO\<close> is declared outside this file; the
  spec has LTO enabled when the mode is one of full and thin, that is, not none.
\<close>

definition isUsingLTO :: "Driver \<Rightarrow> bool" where
  "isUsingLTO D = (LTOMode D \<noteq> LTOK_None)"

definition AddFilePathLibArgs :: "Host \<Rightarrow> ToolChain \<Rightarrow> ArgList \<Rightarrow> ArgStringList \<Rightarrow> ArgStringList" where
  "AddFilePathLibArgs H TC Args CmdArgs = CmdArgs @ FilePathLibArgs H (FilePaths TC) Args"

definition addLTOOptions ::
  "Host \<Rightarrow> ArgList \<Rightarrow> ArgStringList \<Rightarrow> string \<Rightarrow> InputInfo \<Rightarrow> bool \<Rightarrow> ArgStringList" where
  "addLTOOptions H Args CmdArgs Output Input IsThinLTO =
     CmdArgs @ LTOOptions H Args Output Input IsThinLTO"

definition AddLinkerInputs :: "Host \<Rightarrow> InputInfo list \<Rightarrow> ArgList \<Rightarrow> ArgStringList \<Rightarrow> ArgStringList" where
  "AddLinkerInputs H Inputs Args CmdArgs = CmdArgs @ LinkerInputs H Inputs Args"

definition AddRunTimeLibs :: "Host \<Rightarrow> ArgStringList \<Rightarrow> ArgList \<Rightarrow> ArgStringList" where
  "AddRunTimeLibs H CmdArgs Args = CmdArgs @ RunTimeLibs H Args"

definition addSystemInclude :: "Host \<Rightarrow> ArgStringList \<Rightarrow> string \<Rightarrow> ArgStringList" where
  "addSystemInclude H CC1Args Path = CC1Args @ SystemIncludeArgs H Path"

subsection \<open>The tool chain\<close>

text \<open>
  \<^verbatim>\<open>Kush::Kush\<close>, applied to the state the base class constructor leaves: the program
  paths get the install directory (and the driver's directory when it differs), the file
  paths get the two library directories of the sysroot.
\<close>

definition Kush :: "Host \<Rightarrow> Driver \<Rightarrow> ToolChain \<Rightarrow> ToolChain" where
  "Kush H D base =
    (let TC = base\<lparr>ProgramPaths := ProgramPaths base @ [InstalledDir D]\<rparr>;
         TC = (if InstalledDir D \<noteq> Dir D
               then TC\<lparr>ProgramPaths := ProgramPaths TC @ [Dir D]\<rparr> else TC);
         TC = (if SysRoot D \<noteq> []
               then TC\<lparr>FilePaths := FilePaths TC @
                      [path_append H (SysRoot D) [''System'', ''Libraries'']]\<rparr>
               else TC);
         TC = (if SysRoot D \<noteq> []
               then TC\<lparr>FilePaths := FilePaths TC @
                      [path_append H (SysRoot D) [''Local'', ''Libraries'']]\<rparr>
               else TC)
     in TC)"

text \<open>
  \<^verbatim>\<open>Kush::GetRuntimeLibType\<close>, with the driver's diagnostics as a list that
  \<^verbatim>\<open>Diag\<close> extends.
\<close>

definition GetRuntimeLibType ::
  "ArgList \<Rightarrow> Diagnostic list \<Rightarrow> RuntimeLibType \<times> Diagnostic list" where
  "GetRuntimeLibType Args Diags =
    (let Diags =
       (case OPT_rtlib_EQ Args of
          Some A \<Rightarrow>
            (let Value = getValue A
             in if Value \<noteq> ''compiler-rt''
                then Diags @ [(err_drv_invalid_rtlib_name, getAsString A)]
                else Diags)
        | None \<Rightarrow> Diags)
     in (RLT_CompilerRT, Diags))"

text \<open>\<^verbatim>\<open>Kush::AddClangSystemIncludeArgs\<close>.\<close>

definition AddClangSystemIncludeArgs ::
  "Host \<Rightarrow> Driver \<Rightarrow> ArgList \<Rightarrow> ArgStringList \<Rightarrow> ArgStringList" where
  "AddClangSystemIncludeArgs H D DriverArgs CC1Args =
    (if OPT_nostdinc DriverArgs then CC1Args
     else
       let CC1Args =
         (if \<not> OPT_nobuiltininc DriverArgs
          then addSystemInclude H CC1Args (path_append H (ResourceDir D) [''include''])
          else CC1Args)
       in if OPT_nostdlibinc DriverArgs then CC1Args
          else if SysRoot D \<noteq> [] then
            (let P = path_append H (SysRoot D) [''System'', ''Includes''];
                 CC1Args = addSystemInclude H CC1Args P;
                 P2 = path_append H (SysRoot D) [''Local'', ''Includes''];
                 CC1Args = addSystemInclude H CC1Args P2
             in CC1Args)
          else CC1Args)"

text \<open>\<^verbatim>\<open>Kush::AddCXXStdlibLibArgs\<close>; the default case is \<^verbatim>\<open>llvm_unreachable\<close>.\<close>

definition AddCXXStdlibLibArgs :: "Host \<Rightarrow> ArgList \<Rightarrow> ArgStringList \<Rightarrow> error + ArgStringList" where
  "AddCXXStdlibLibArgs H Args CmdArgs =
    (case GetCXXStdlibType H Args of
       CST_Libcxx \<Rightarrow>
         (let CmdArgs = push_back CmdArgs ''-lc++abi'';
              CmdArgs = push_back CmdArgs ''-lc++'';
              CmdArgs = (if \<not> OPT_static Args then push_back CmdArgs ''-lunwind'' else CmdArgs)
          in Inr CmdArgs)
     | _ \<Rightarrow> Inl (Unreachable ''invalid stdlib name''))"

subsection \<open>The linker job\<close>

text \<open>The local \<^verbatim>\<open>IsPIE\<close> of \<^verbatim>\<open>ConstructJob\<close>.\<close>

definition IsPIE :: "Host \<Rightarrow> ArgList \<Rightarrow> bool" where
  "IsPIE H Args = (\<not> OPT_shared Args \<and> (OPT_pie Args \<or> isPIEDefault H Args))"

text \<open>
  \<^verbatim>\<open>kush::Linker::ConstructJob\<close>. The result is the command handed to
  \<^verbatim>\<open>C.addCommand\<close>, or the failure of the assertion on the inputs or of the
  unreachable case of \<open>AddCXXStdlibLibArgs\<close>.
\<close>

definition ConstructJob ::
  "Host \<Rightarrow> Driver \<Rightarrow> ToolChain \<Rightarrow> string \<Rightarrow> InputInfo list \<Rightarrow> ArgList \<Rightarrow> error + Command" where
  "ConstructJob H D TC Output Inputs Args =
    (let CmdArgs = [];
         Exec = GetLinkerPath H;
         CmdArgs = push_back CmdArgs ''-znorelro'';
         CmdArgs = (if SysRoot D \<noteq> []
                    then push_back CmdArgs (''--sysroot='' @ SysRoot D) else CmdArgs);
         isPIE = IsPIE H Args;
         CmdArgs = (if isPIE then push_back CmdArgs ''-pie'' else CmdArgs);
         CmdArgs = (if OPT_s Args then push_back CmdArgs ''-s'' else CmdArgs);
         CmdArgs =
           (if OPT_static Args then push_back CmdArgs ''-Bstatic''
            else
              let CmdArgs = (if OPT_rdynamic Args
                             then push_back CmdArgs ''-export-dynamic'' else CmdArgs);
                  CmdArgs = (if OPT_shared Args then push_back CmdArgs ''-Bshareable''
                             else push_back (push_back CmdArgs ''-dynamic-linker'')
                                    ''/sbin/ldyldo'')
              in push_back CmdArgs ''--enable-new-dtags'');
         CmdArgs = push_back CmdArgs ''-o'';
         CmdArgs = push_back CmdArgs Output;
         CmdArgs =
           (if \<not> (OPT_nostdlib Args \<or> OPT_nostartfiles Args) then
              let CmdArgs =
                    (if OPT_static Args
                     then push_back CmdArgs (GetFilePath H ''crt0T.o'')
                     else if OPT_shared Args \<or> isPIE
                     then push_back CmdArgs (GetFilePath H ''crt0S.o'')
                     else push_back CmdArgs (GetFilePath H ''crt0.o''))
              in if OPT_static Args
                 then push_back CmdArgs (GetFilePath H ''crti.o'') else CmdArgs
            else CmdArgs);
         CmdArgs = AddAllArgs CmdArgs (OPT_L Args);
         CmdArgs = AddAllArgs CmdArgs (OPT_u Args);
         CmdArgs = AddFilePathLibArgs H TC Args CmdArgs
     in case (if isUsingLTO D then
                (case Inputs of
                   [] \<Rightarrow> Inl (AssertionFailed ''Must have at least one input.'')
                 | Input0 # _ \<Rightarrow>
                     Inr (addLTOOptions H Args CmdArgs Output Input0
                            (LTOMode D = LTOK_Thin)))
              else Inr CmdArgs) of
          Inl e \<Rightarrow> Inl e
        | Inr CmdArgs \<Rightarrow>
           (let CmdArgs = AddLinkerInputs H Inputs Args CmdArgs
            in case (if \<not> (OPT_nostdlib Args \<or> OPT_nodefaultlibs Args) then
                       let CmdArgs = (if OPT_static Args
                                      then push_back CmdArgs ''-Bstatic'' else CmdArgs)
                       in case (if CCCIsCXX D \<and> ShouldLinkCXXStdlib H Args then
                                  let OnlyLibstdcxxStatic =
                                        (OPT_static_libstdcxx Args \<and> \<not> OPT_static Args);
                                      CmdArgs = push_back CmdArgs ''--push-state'';
                                      CmdArgs = push_back CmdArgs ''--as-needed'';
                                      CmdArgs = (if OnlyLibstdcxxStatic
                                                 then push_back CmdArgs ''-Bstatic''
                                                 else CmdArgs)
                                  in case AddCXXStdlibLibArgs H Args CmdArgs of
                                       Inl e \<Rightarrow> Inl e
                                     | Inr CmdArgs \<Rightarrow>
                                        (let CmdArgs = (if OnlyLibstdcxxStatic
                                                        then push_back CmdArgs ''-Bdynamic''
                                                        else CmdArgs);
                                             CmdArgs = push_back CmdArgs ''-lopenlibm'';
                                             CmdArgs = push_back CmdArgs ''--pop-state''
                                         in Inr CmdArgs)
                                else Inr CmdArgs) of
                            Inl e \<Rightarrow> Inl e
                          | Inr CmdArgs \<Rightarrow>
                             (let CmdArgs = AddRunTimeLibs H CmdArgs Args;
                                  CmdArgs = (if \<not> OPT_nolibc Args
                                             then push_back CmdArgs ''-lc'' else CmdArgs)
                              in Inr CmdArgs)
                     else Inr CmdArgs) of
                 Inl e \<Rightarrow> Inl e
               | Inr CmdArgs \<Rightarrow> Inr \<lparr>Executable = Exec, Arguments = CmdArgs\<rparr>))"

subsection \<open>The blocks of the linker job\<close>

text \<open>
  The strings each block of \<open>ConstructJob\<close> appends, block by block in the order of the
  source; \<open>ConstructJob_shape\<close> below proves that the arguments of the job are their
  concatenation.
\<close>

text \<open>The hardening flag, the sysroot, \<^verbatim>\<open>-pie\<close> and \<^verbatim>\<open>-s\<close>.\<close>

definition leading_flags :: "Host \<Rightarrow> Driver \<Rightarrow> ArgList \<Rightarrow> ArgStringList" where
  "leading_flags H D Args =
     [''-znorelro''] @ (if SysRoot D \<noteq> [] then [''--sysroot='' @ SysRoot D] else [])
       @ (if IsPIE H Args then [''-pie''] else [])
       @ (if OPT_s Args then [''-s''] else [])"

text \<open>The static or dynamic linking flags.\<close>

definition linking_mode_flags :: "ArgList \<Rightarrow> ArgStringList" where
  "linking_mode_flags Args =
     (if OPT_static Args then [''-Bstatic'']
      else (if OPT_rdynamic Args then [''-export-dynamic''] else [])
         @ (if OPT_shared Args then [''-Bshareable'']
            else [''-dynamic-linker'', ''/sbin/ldyldo''])
         @ [''--enable-new-dtags''])"

text \<open>The C library startup files.\<close>

definition startup_files :: "Host \<Rightarrow> ArgList \<Rightarrow> ArgStringList" where
  "startup_files H Args =
     (if \<not> (OPT_nostdlib Args \<or> OPT_nostartfiles Args)
      then (if OPT_static Args then [GetFilePath H ''crt0T.o'']
            else if OPT_shared Args \<or> IsPIE H Args then [GetFilePath H ''crt0S.o'']
            else [GetFilePath H ''crt0.o''])
         @ (if OPT_static Args then [GetFilePath H ''crti.o''] else [])
      else [])"

text \<open>The LTO options, for the first input.\<close>

definition lto_flags :: "Host \<Rightarrow> Driver \<Rightarrow> string \<Rightarrow> InputInfo list \<Rightarrow> ArgList \<Rightarrow> ArgStringList" where
  "lto_flags H D Output Inputs Args =
     (if isUsingLTO D
      then (case Inputs of [] \<Rightarrow> []
            | Input0 # _ \<Rightarrow> LTOOptions H Args Output Input0 (LTOMode D = LTOK_Thin))
      else [])"

text \<open>The C++ standard library between \<^verbatim>\<open>--push-state\<close> and \<^verbatim>\<open>--pop-state\<close>.\<close>

definition cxx_stdlib_group :: "ArgList \<Rightarrow> ArgStringList" where
  "cxx_stdlib_group Args =
     [''--push-state'', ''--as-needed'']
       @ (if OPT_static_libstdcxx Args \<and> \<not> OPT_static Args then [''-Bstatic''] else [])
       @ [''-lc++abi'', ''-lc++'']
       @ (if \<not> OPT_static Args then [''-lunwind''] else [])
       @ (if OPT_static_libstdcxx Args \<and> \<not> OPT_static Args then [''-Bdynamic''] else [])
       @ [''-lopenlibm'', ''--pop-state'']"

text \<open>The job reaches \<open>AddCXXStdlibLibArgs\<close>.\<close>

definition links_cxx_stdlib :: "Host \<Rightarrow> Driver \<Rightarrow> ArgList \<Rightarrow> bool" where
  "links_cxx_stdlib H D Args =
     (\<not> (OPT_nostdlib Args \<or> OPT_nodefaultlibs Args) \<and> CCCIsCXX D \<and> ShouldLinkCXXStdlib H Args)"

text \<open>The standard libraries.\<close>

definition default_libs :: "Host \<Rightarrow> Driver \<Rightarrow> ArgList \<Rightarrow> ArgStringList" where
  "default_libs H D Args =
     (if \<not> (OPT_nostdlib Args \<or> OPT_nodefaultlibs Args)
      then (if OPT_static Args then [''-Bstatic''] else [])
         @ (if CCCIsCXX D \<and> ShouldLinkCXXStdlib H Args then cxx_stdlib_group Args else [])
         @ RunTimeLibs H Args
         @ (if \<not> OPT_nolibc Args then [''-lc''] else [])
      else [])"

text \<open>
  The strings of a command that \<open>ConstructJob\<close> does not choose: the output file name,
  the startup file paths that \<open>GetFilePath\<close> resolves, the user's \<^verbatim>\<open>-L\<close> and \<^verbatim>\<open>-u\<close>
  arguments, and what the helpers of the driver framework append.
\<close>

definition passed_through ::
  "Host \<Rightarrow> Driver \<Rightarrow> ToolChain \<Rightarrow> string \<Rightarrow> InputInfo list \<Rightarrow> ArgList \<Rightarrow> string list" where
  "passed_through H D TC Output Inputs Args =
     [Output] @ startup_files H Args @ OPT_L Args @ OPT_u Args
       @ FilePathLibArgs H (FilePaths TC) Args
       @ lto_flags H D Output Inputs Args @ LinkerInputs H Inputs Args
       @ (if \<not> (OPT_nostdlib Args \<or> OPT_nodefaultlibs Args) then RunTimeLibs H Args else [])"

subsection \<open>The linker's static and dynamic mode\<close>

text \<open>
  How a linker reads the mode flags of a command line, as the spec's state machine of the
  default libraries has it: \<^verbatim>\<open>-Bstatic\<close> and \<^verbatim>\<open>-Bdynamic\<close> set the mode,
  \<^verbatim>\<open>--push-state\<close> saves it and \<^verbatim>\<open>--pop-state\<close> restores the mode saved last. The
  state is the mode and the stack of saved modes.
\<close>

datatype link_mode = Static | Dynamic

fun link_step :: "link_mode \<times> link_mode list \<Rightarrow> string \<Rightarrow> link_mode \<times> link_mode list" where
  "link_step (m, saved) a =
     (if a = ''-Bstatic'' then (Static, saved)
      else if a = ''-Bdynamic'' then (Dynamic, saved)
      else if a = ''--push-state'' then (m, m # saved)
      else if a = ''--pop-state''
      then (case saved of [] \<Rightarrow> (m, saved) | m' # saved' \<Rightarrow> (m', saved'))
      else (m, saved))"

definition link_state :: "link_mode \<times> link_mode list \<Rightarrow> string list \<Rightarrow> link_mode \<times> link_mode list" where
  "link_state s args = foldl link_step s args"

subsection \<open>Example inputs\<close>

text \<open>
  A host whose library path arguments are \<^verbatim>\<open>-L\<close> and the path, whose linker inputs are
  the input file names, whose only LTO option marks thin LTO, and whose paths are joined
  with a slash.
\<close>

definition host0 :: Host where
  "host0 = \<lparr>GetLinkerPath = ''ld.lld'',
            isPIEDefault = (\<lambda>Args. False),
            GetFilePath = (\<lambda>Name. Name),
            ShouldLinkCXXStdlib = (\<lambda>Args. True),
            GetCXXStdlibType = (\<lambda>Args. CST_Libcxx),
            FilePathLibArgs = (\<lambda>Paths Args. map (\<lambda>P. ''-L'' @ P) Paths),
            LTOOptions = (\<lambda>Args Output Input IsThinLTO.
               if IsThinLTO then [''-plugin-opt=thinlto''] else [''-plugin-opt=O2'']),
            LinkerInputs = (\<lambda>Inputs Args. Inputs),
            RunTimeLibs = (\<lambda>Args. [''libclang_rt.builtins.a'']),
            path_append = (\<lambda>P Components. P @ concat (map (\<lambda>C. ''/'' @ C) Components)),
            SystemIncludeArgs = (\<lambda>P. [''-internal-isystem'', P])\<rparr>"

definition driver0 :: Driver where
  "driver0 = \<lparr>SysRoot = ''/target'', ResourceDir = ''/lib/clang'', InstalledDir = ''/bin'',
              Dir = ''/bin'', CCCIsCXX = False, LTOMode = LTOK_None\<rparr>"

definition base0 :: ToolChain where
  "base0 = \<lparr>ProgramPaths = [], FilePaths = []\<rparr>"

definition args0 :: ArgList where
  "args0 = \<lparr>OPT_shared = False, OPT_pie = False, OPT_s = False, OPT_static = False,
            OPT_rdynamic = False, OPT_nostdlib = False, OPT_nostartfiles = False,
            OPT_nodefaultlibs = False, OPT_static_libstdcxx = False, OPT_nolibc = False,
            OPT_nostdinc = False, OPT_nobuiltininc = False, OPT_nostdlibinc = False,
            OPT_L = [], OPT_u = [], OPT_rtlib_EQ = None\<rparr>"

text \<open>The tool chain that the constructor builds for that driver.\<close>

definition tc0 :: ToolChain where
  "tc0 = Kush host0 driver0 base0"

section \<open>Properties\<close>

subsection \<open>The shape of a linker command\<close>

lemma if_push_back: "(if c then push_back xs x else xs) = xs @ (if c then [x] else [])"
  by (simp add: push_back_def)

lemma mode_block:
  "(if st then push_back C a
    else let C1 = (if rd then push_back C b else C);
             C2 = (if sh then push_back C1 c else push_back (push_back C1 d) e)
         in push_back C2 f) =
   C @ (if st then [a] else (if rd then [b] else []) @ (if sh then [c] else [d, e]) @ [f])"
  by (simp add: push_back_def)

lemma startup_block:
  "(if n then
      let C1 = (if st then push_back C x else if d then push_back C y else push_back C z)
      in if st then push_back C1 i else C1
    else C) =
   C @ (if n then (if st then [x] else if d then [y] else [z]) @ (if st then [i] else [])
        else [])"
  by (simp add: push_back_def)

lemma AddCXXStdlibLibArgs_appends:
  "GetCXXStdlibType H Args = CST_Libcxx \<Longrightarrow>
   AddCXXStdlibLibArgs H Args CmdArgs =
     Inr (CmdArgs @ [''-lc++abi'', ''-lc++''] @ (if \<not> OPT_static Args then [''-lunwind''] else []))"
  by (simp add: AddCXXStdlibLibArgs_def push_back_def)

lemma AddCXXStdlibLibArgs_other:
  "GetCXXStdlibType H Args \<noteq> CST_Libcxx \<Longrightarrow>
   AddCXXStdlibLibArgs H Args CmdArgs = Inl (Unreachable ''invalid stdlib name'')"
  by (cases "GetCXXStdlibType H Args") (simp_all add: AddCXXStdlibLibArgs_def)

lemmas block_simps =
  leading_flags_def linking_mode_flags_def startup_files_def lto_flags_def default_libs_def
  cxx_stdlib_group_def push_back_def if_push_back mode_block startup_block
  AddAllArgs_def AddFilePathLibArgs_def addLTOOptions_def AddLinkerInputs_def
  AddRunTimeLibs_def Let_def

lemma ConstructJob_assert:
  assumes "isUsingLTO D" "Inputs = []"
  shows "ConstructJob H D TC Output Inputs Args =
           Inl (AssertionFailed ''Must have at least one input.'')"
  using assms by (simp add: ConstructJob_def Let_def split del: if_split)

lemma ConstructJob_unreachable:
  assumes "\<not> (isUsingLTO D \<and> Inputs = [])" "links_cxx_stdlib H D Args"
    "GetCXXStdlibType H Args \<noteq> CST_Libcxx"
  shows "ConstructJob H D TC Output Inputs Args = Inl (Unreachable ''invalid stdlib name'')"
  using assms unfolding ConstructJob_def
  by (cases "isUsingLTO D"; cases Inputs)
     (simp_all add: AddCXXStdlibLibArgs_other links_cxx_stdlib_def Let_def split del: if_split)

lemma ConstructJob_cxx:
  assumes "\<not> (isUsingLTO D \<and> Inputs = [])" "links_cxx_stdlib H D Args"
    "GetCXXStdlibType H Args = CST_Libcxx"
  shows "ConstructJob H D TC Output Inputs Args =
     Inr \<lparr>Executable = GetLinkerPath H,
          Arguments = leading_flags H D Args @ linking_mode_flags Args
            @ [''-o'', Output] @ startup_files H Args
            @ OPT_L Args @ OPT_u Args @ FilePathLibArgs H (FilePaths TC) Args
            @ lto_flags H D Output Inputs Args @ LinkerInputs H Inputs Args
            @ default_libs H D Args\<rparr>"
  using assms unfolding ConstructJob_def
  by (cases "isUsingLTO D"; cases Inputs)
     (simp_all add: AddCXXStdlibLibArgs_appends links_cxx_stdlib_def block_simps
        split del: if_split)

lemma ConstructJob_no_cxx:
  assumes "\<not> (isUsingLTO D \<and> Inputs = [])" "\<not> links_cxx_stdlib H D Args"
  shows "ConstructJob H D TC Output Inputs Args =
     Inr \<lparr>Executable = GetLinkerPath H,
          Arguments = leading_flags H D Args @ linking_mode_flags Args
            @ [''-o'', Output] @ startup_files H Args
            @ OPT_L Args @ OPT_u Args @ FilePathLibArgs H (FilePaths TC) Args
            @ lto_flags H D Output Inputs Args @ LinkerInputs H Inputs Args
            @ default_libs H D Args\<rparr>"
proof (cases "OPT_nostdlib Args \<or> OPT_nodefaultlibs Args")
  case True
  with assms(1) show ?thesis unfolding ConstructJob_def
    by (cases "isUsingLTO D"; cases Inputs) (simp_all add: block_simps split del: if_split)
next
  case libs: False
  show ?thesis
  proof (cases "CCCIsCXX D")
    case True
    with libs assms(2) have "\<not> ShouldLinkCXXStdlib H Args"
      by (simp add: links_cxx_stdlib_def)
    with libs assms(1) show ?thesis unfolding ConstructJob_def
      by (cases "isUsingLTO D"; cases Inputs) (simp_all add: block_simps split del: if_split)
  next
    case False
    with libs assms(1) show ?thesis unfolding ConstructJob_def
      by (cases "isUsingLTO D"; cases Inputs) (simp_all add: block_simps split del: if_split)
  qed
qed

lemma ConstructJob_shape:
  "ConstructJob H D TC Output Inputs Args =
    (if isUsingLTO D \<and> Inputs = []
     then Inl (AssertionFailed ''Must have at least one input.'')
     else if links_cxx_stdlib H D Args \<and> GetCXXStdlibType H Args \<noteq> CST_Libcxx
     then Inl (Unreachable ''invalid stdlib name'')
     else Inr \<lparr>Executable = GetLinkerPath H,
               Arguments = leading_flags H D Args @ linking_mode_flags Args
                 @ [''-o'', Output] @ startup_files H Args
                 @ OPT_L Args @ OPT_u Args @ FilePathLibArgs H (FilePaths TC) Args
                 @ lto_flags H D Output Inputs Args @ LinkerInputs H Inputs Args
                 @ default_libs H D Args\<rparr>)"
proof (cases "isUsingLTO D \<and> Inputs = []")
  case True
  then show ?thesis by (simp add: ConstructJob_assert)
next
  case ok: False
  show ?thesis
  proof (cases "links_cxx_stdlib H D Args")
    case True
    with ok show ?thesis
      by (cases "GetCXXStdlibType H Args = CST_Libcxx")
         (simp_all only: ConstructJob_cxx ConstructJob_unreachable if_False if_True
            simp_thms not_False_eq_True)
  next
    case False
    with ok show ?thesis by (simp only: ConstructJob_no_cxx if_False simp_thms)
  qed
qed

lemma ConstructJob_Arguments:
  assumes "ConstructJob H D TC Output Inputs Args = Inr cmd"
  shows "Arguments cmd = leading_flags H D Args @ linking_mode_flags Args
           @ [''-o'', Output] @ startup_files H Args
           @ OPT_L Args @ OPT_u Args @ FilePathLibArgs H (FilePaths TC) Args
           @ lto_flags H D Output Inputs Args @ LinkerInputs H Inputs Args
           @ default_libs H D Args"
  using assms by (auto simp: ConstructJob_shape split: if_splits)

subsection \<open>Occurrences of the flags that the job chooses\<close>

lemma count_leading_flags:
  "count_list (leading_flags H D Args) ''-znorelro'' = 1"
  "count_list (leading_flags H D Args) ''-o'' = 0"
  "count_list (leading_flags H D Args) ''-dynamic-linker'' = 0"
  "count_list (leading_flags H D Args) ''-Bshareable'' = 0"
  "count_list (leading_flags H D Args) ''-export-dynamic'' = 0"
  by (simp_all add: leading_flags_def)

lemma count_linking_mode_flags:
  "count_list (linking_mode_flags Args) ''-znorelro'' = 0"
  "count_list (linking_mode_flags Args) ''-o'' = 0"
  by (simp_all add: linking_mode_flags_def)

lemma count_linking_mode_flags_static:
  assumes "OPT_static Args"
  shows "count_list (linking_mode_flags Args) ''-dynamic-linker'' = 0"
    "count_list (linking_mode_flags Args) ''-Bshareable'' = 0"
    "count_list (linking_mode_flags Args) ''-export-dynamic'' = 0"
  using assms by (simp_all add: linking_mode_flags_def)

lemma count_cxx_stdlib_group:
  "count_list (cxx_stdlib_group Args) ''-znorelro'' = 0"
  "count_list (cxx_stdlib_group Args) ''-o'' = 0"
  "count_list (cxx_stdlib_group Args) ''-dynamic-linker'' = 0"
  "count_list (cxx_stdlib_group Args) ''-Bshareable'' = 0"
  "count_list (cxx_stdlib_group Args) ''-export-dynamic'' = 0"
  by (simp_all add: cxx_stdlib_group_def)

lemma count_default_libs:
  "count_list (default_libs H D Args) ''-znorelro'' =
    count_list (if \<not> (OPT_nostdlib Args \<or> OPT_nodefaultlibs Args) then RunTimeLibs H Args else []) ''-znorelro''"
  "count_list (default_libs H D Args) ''-o'' =
    count_list (if \<not> (OPT_nostdlib Args \<or> OPT_nodefaultlibs Args) then RunTimeLibs H Args else []) ''-o''"
  "count_list (default_libs H D Args) ''-dynamic-linker'' =
    count_list (if \<not> (OPT_nostdlib Args \<or> OPT_nodefaultlibs Args) then RunTimeLibs H Args else []) ''-dynamic-linker''"
  "count_list (default_libs H D Args) ''-Bshareable'' =
    count_list (if \<not> (OPT_nostdlib Args \<or> OPT_nodefaultlibs Args) then RunTimeLibs H Args else []) ''-Bshareable''"
  "count_list (default_libs H D Args) ''-export-dynamic'' =
    count_list (if \<not> (OPT_nostdlib Args \<or> OPT_nodefaultlibs Args) then RunTimeLibs H Args else []) ''-export-dynamic''"
  by (simp_all add: default_libs_def count_cxx_stdlib_group)

subsection \<open>The example jobs\<close>

lemmas view_defs =
  leading_flags_def linking_mode_flags_def startup_files_def lto_flags_def default_libs_def
  cxx_stdlib_group_def links_cxx_stdlib_def IsPIE_def isUsingLTO_def

lemma FilePaths_tc0:
  "FilePaths tc0 = [''/target/System/Libraries'', ''/target/Local/Libraries'']"
  by (simp add: tc0_def Kush_def host0_def driver0_def base0_def Let_def)

lemma static_job:
  "ConstructJob host0 driver0 tc0 ''a.out'' [''main.o'']
     (args0\<lparr>OPT_static := True, OPT_rdynamic := True\<rparr>) =
   Inr \<lparr>Executable = ''ld.lld'',
        Arguments = [''-znorelro'', ''--sysroot=/target'', ''-Bstatic'', ''-o'', ''a.out'',
          ''crt0T.o'', ''crti.o'', ''-L/target/System/Libraries'', ''-L/target/Local/Libraries'',
          ''main.o'', ''-Bstatic'', ''libclang_rt.builtins.a'', ''-lc'']\<rparr>"
  by (simp add: ConstructJob_shape view_defs FilePaths_tc0 host0_def driver0_def args0_def split del: if_split)

lemmas job_eval =
  ConstructJob_shape view_defs FilePaths_tc0 host0_def driver0_def args0_def

lemma plain_job:
  "ConstructJob host0 driver0 tc0 ''a.out'' [''main.o''] args0 =
   Inr \<lparr>Executable = ''ld.lld'',
        Arguments = [''-znorelro'', ''--sysroot=/target'', ''-dynamic-linker'', ''/sbin/ldyldo'',
          ''--enable-new-dtags'', ''-o'', ''a.out'', ''crt0.o'',
          ''-L/target/System/Libraries'', ''-L/target/Local/Libraries'',
          ''main.o'', ''libclang_rt.builtins.a'', ''-lc'']\<rparr>"
  by (simp add: job_eval split del: if_split)

lemma shared_job:
  "ConstructJob host0 driver0 tc0 ''libx.so'' [''x.o'']
     (args0\<lparr>OPT_shared := True, OPT_pie := True\<rparr>) =
   Inr \<lparr>Executable = ''ld.lld'',
        Arguments = [''-znorelro'', ''--sysroot=/target'', ''-Bshareable'',
          ''--enable-new-dtags'', ''-o'', ''libx.so'', ''crt0S.o'',
          ''-L/target/System/Libraries'', ''-L/target/Local/Libraries'',
          ''x.o'', ''libclang_rt.builtins.a'', ''-lc'']\<rparr>"
  by (simp add: job_eval split del: if_split)

subsection \<open>Occurrences in a command\<close>

lemma count_Arguments_static:
  assumes "OPT_static Args" "ConstructJob H D TC Output Inputs Args = Inr cmd"
  shows "count_list (Arguments cmd) ''-dynamic-linker'' =
      count_list (passed_through H D TC Output Inputs Args) ''-dynamic-linker''"
    "count_list (Arguments cmd) ''-Bshareable'' =
      count_list (passed_through H D TC Output Inputs Args) ''-Bshareable''"
    "count_list (Arguments cmd) ''-export-dynamic'' =
      count_list (passed_through H D TC Output Inputs Args) ''-export-dynamic''"
  by (simp_all add: ConstructJob_Arguments [OF assms(2)] passed_through_def count_leading_flags
      count_linking_mode_flags_static [OF assms(1)] count_default_libs)

lemma count_Arguments_once:
  assumes "ConstructJob H D TC Output Inputs Args = Inr cmd"
  shows "count_list (Arguments cmd) ''-znorelro'' =
      1 + count_list (passed_through H D TC Output Inputs Args) ''-znorelro''"
    "count_list (Arguments cmd) ''-o'' =
      1 + count_list (passed_through H D TC Output Inputs Args) ''-o''"
  by (simp_all add: ConstructJob_Arguments [OF assms] passed_through_def count_leading_flags
      count_linking_mode_flags count_default_libs)

subsection \<open>The runtime library type\<close>

text \<open>
  C8. For every optional user-requested runtime library name, \<open>GetRuntimeLibType\<close> returns
  the one supported kind, compiler-rt. When a name is supplied and differs from
  \<^verbatim>\<open>compiler-rt\<close>, it reports the invalid-runtime-library-name diagnostic, with the
  argument as the user wrote it, and still returns compiler-rt; otherwise it reports
  nothing. It is total and returns no other kind.
\<close>

theorem GetRuntimeLibType_CompilerRT:
  "GetRuntimeLibType Args Diags =
     (RLT_CompilerRT,
      case OPT_rtlib_EQ Args of
        None \<Rightarrow> Diags
      | Some A \<Rightarrow> if getValue A = ''compiler-rt'' then Diags
                  else Diags @ [(err_drv_invalid_rtlib_name, getAsString A)])"
  by (simp add: GetRuntimeLibType_def split: option.split)

theorem GetRuntimeLibType_CompilerRT_witness:
  "GetRuntimeLibType
     (args0\<lparr>OPT_rtlib_EQ := Some \<lparr>getValue = ''libgcc'', getAsString = ''-rtlib=libgcc''\<rparr>\<rparr>) []
     = (RLT_CompilerRT, [(err_drv_invalid_rtlib_name, ''-rtlib=libgcc'')])
   \<and> GetRuntimeLibType
     (args0\<lparr>OPT_rtlib_EQ := Some \<lparr>getValue = ''compiler-rt'',
        getAsString = ''-rtlib=compiler-rt''\<rparr>\<rparr>) [] = (RLT_CompilerRT, [])
   \<and> GetRuntimeLibType args0 [] = (RLT_CompilerRT, [])"
  using GetRuntimeLibType_CompilerRT
    [of "args0\<lparr>OPT_rtlib_EQ := Some \<lparr>getValue = ''libgcc'', getAsString = ''-rtlib=libgcc''\<rparr>\<rparr>" "[]"]
    GetRuntimeLibType_CompilerRT
    [of "args0\<lparr>OPT_rtlib_EQ := Some \<lparr>getValue = ''compiler-rt'',
        getAsString = ''-rtlib=compiler-rt''\<rparr>\<rparr>" "[]"]
    GetRuntimeLibType_CompilerRT [of args0 "[]"]
  by (simp add: args0_def)

subsection \<open>The C++ standard library arguments\<close>

text \<open>
  C10. With libc++ selected, \<open>AddCXXStdlibLibArgs\<close> appends exactly \<^verbatim>\<open>-lc++abi\<close> and
  then \<^verbatim>\<open>-lc++\<close>, and appends \<^verbatim>\<open>-lunwind\<close> right after them if and only if
  \<^verbatim>\<open>-static\<close> is not given.
\<close>

theorem AddCXXStdlibLibArgs_libcxx:
  "GetCXXStdlibType H Args = CST_Libcxx \<Longrightarrow>
   AddCXXStdlibLibArgs H Args CmdArgs =
     Inr (CmdArgs @ [''-lc++abi'', ''-lc++''] @ (if OPT_static Args then [] else [''-lunwind'']))"
  by (simp add: AddCXXStdlibLibArgs_appends)

theorem AddCXXStdlibLibArgs_libcxx_witness:
  "AddCXXStdlibLibArgs host0 args0 [''main.o''] =
     Inr [''main.o'', ''-lc++abi'', ''-lc++'', ''-lunwind'']
   \<and> AddCXXStdlibLibArgs host0 (args0\<lparr>OPT_static := True\<rparr>) [''main.o''] =
     Inr [''main.o'', ''-lc++abi'', ''-lc++'']"
proof -
  have t: "GetCXXStdlibType host0 A = CST_Libcxx" for A
    by (simp add: host0_def)
  show ?thesis
    using AddCXXStdlibLibArgs_libcxx [OF t, of args0 "[''main.o'']"]
      AddCXXStdlibLibArgs_libcxx [OF t, of "args0\<lparr>OPT_static := True\<rparr>" "[''main.o'']"]
    by (simp add: args0_def)
qed

subsection \<open>The system include directories\<close>

text \<open>
  C7, as amended. \<open>AddClangSystemIncludeArgs\<close> adds nothing at all when \<^verbatim>\<open>-nostdinc\<close>
  is given. Otherwise the built-in include directory (\<^verbatim>\<open>include\<close> under the resource
  directory) is left out when \<^verbatim>\<open>-nobuiltininc\<close> is given and is the first entry added
  when it is not; nothing follows it when \<^verbatim>\<open>-nostdlibinc\<close> is given or no sysroot is
  configured; otherwise exactly \<^verbatim>\<open>System/Includes\<close> and then \<^verbatim>\<open>Local/Includes\<close> under
  the sysroot follow, in that order.
\<close>

theorem AddClangSystemIncludeArgs_dirs:
  "AddClangSystemIncludeArgs H D Args CC1Args =
     (if OPT_nostdinc Args then CC1Args
      else CC1Args
        @ (if OPT_nobuiltininc Args then []
           else SystemIncludeArgs H (path_append H (ResourceDir D) [''include'']))
        @ (if OPT_nostdlibinc Args \<or> SysRoot D = [] then []
           else SystemIncludeArgs H (path_append H (SysRoot D) [''System'', ''Includes''])
              @ SystemIncludeArgs H (path_append H (SysRoot D) [''Local'', ''Includes''])))"
  by (simp add: AddClangSystemIncludeArgs_def addSystemInclude_def Let_def)

theorem AddClangSystemIncludeArgs_dirs_witness:
  "AddClangSystemIncludeArgs host0 driver0 args0 [] =
     [''-internal-isystem'', ''/lib/clang/include'',
      ''-internal-isystem'', ''/target/System/Includes'',
      ''-internal-isystem'', ''/target/Local/Includes'']
   \<and> AddClangSystemIncludeArgs host0 driver0 (args0\<lparr>OPT_nobuiltininc := True\<rparr>) [] =
     [''-internal-isystem'', ''/target/System/Includes'',
      ''-internal-isystem'', ''/target/Local/Includes'']
   \<and> AddClangSystemIncludeArgs host0 driver0 (args0\<lparr>OPT_nostdlibinc := True\<rparr>) [] =
     [''-internal-isystem'', ''/lib/clang/include'']
   \<and> AddClangSystemIncludeArgs host0 (driver0\<lparr>SysRoot := []\<rparr>) args0 [] =
     [''-internal-isystem'', ''/lib/clang/include'']"
  using AddClangSystemIncludeArgs_dirs [of host0 driver0 args0 "[]"]
    AddClangSystemIncludeArgs_dirs [of host0 driver0 "args0\<lparr>OPT_nobuiltininc := True\<rparr>" "[]"]
    AddClangSystemIncludeArgs_dirs [of host0 driver0 "args0\<lparr>OPT_nostdlibinc := True\<rparr>" "[]"]
    AddClangSystemIncludeArgs_dirs [of host0 "driver0\<lparr>SysRoot := []\<rparr>" args0 "[]"]
  by (simp add: host0_def driver0_def args0_def)

text \<open>
  C7 as stated fails with \<^verbatim>\<open>-nostdinc\<close>: \<^verbatim>\<open>-nobuiltininc\<close> and \<^verbatim>\<open>-nostdlibinc\<close> are
  not given and a sysroot is configured, yet no directory is added, so the built-in
  directory is not the first entry and the two sysroot directories are missing.
\<close>

theorem AddClangSystemIncludeArgs_nostdinc_counterexample:
  "\<not> OPT_nobuiltininc (args0\<lparr>OPT_nostdinc := True\<rparr>)
   \<and> \<not> OPT_nostdlibinc (args0\<lparr>OPT_nostdinc := True\<rparr>)
   \<and> SysRoot driver0 = ''/target''
   \<and> AddClangSystemIncludeArgs host0 driver0 (args0\<lparr>OPT_nostdinc := True\<rparr>) [] = []"
  by (simp add: AddClangSystemIncludeArgs_def args0_def driver0_def)

subsection \<open>Static links\<close>

text \<open>
  C1, as amended. In a command for a static link, \<open>ConstructJob\<close> itself emits none of
  \<^verbatim>\<open>-dynamic-linker\<close>, \<^verbatim>\<open>-Bshareable\<close> and \<^verbatim>\<open>-export-dynamic\<close>, whatever the other
  flags are: each occurs in the command exactly as often as among the strings passed
  through (the output file name, the resolved startup file paths, the user's \<^verbatim>\<open>-L\<close> and
  \<^verbatim>\<open>-u\<close> arguments and what the helpers of the driver framework append). When neither
  \<^verbatim>\<open>-nostdlib\<close> nor \<^verbatim>\<open>-nostartfiles\<close> is given, the command has \<^verbatim>\<open>crt0T.o\<close> and
  then \<^verbatim>\<open>crti.o\<close>, right after the output file name.
\<close>

theorem static_link_flags:
  assumes "OPT_static Args" "ConstructJob H D TC Output Inputs Args = Inr cmd"
  shows "count_list (Arguments cmd) ''-dynamic-linker'' =
           count_list (passed_through H D TC Output Inputs Args) ''-dynamic-linker''
       \<and> count_list (Arguments cmd) ''-Bshareable'' =
           count_list (passed_through H D TC Output Inputs Args) ''-Bshareable''
       \<and> count_list (Arguments cmd) ''-export-dynamic'' =
           count_list (passed_through H D TC Output Inputs Args) ''-export-dynamic''
       \<and> (\<not> (OPT_nostdlib Args \<or> OPT_nostartfiles Args) \<longrightarrow>
            (\<exists>pre post. Arguments cmd =
               pre @ [''-Bstatic'', ''-o'', Output,
                      GetFilePath H ''crt0T.o'', GetFilePath H ''crti.o''] @ post))"
proof -
  have "\<exists>pre post. Arguments cmd =
      pre @ [''-Bstatic'', ''-o'', Output, GetFilePath H ''crt0T.o'', GetFilePath H ''crti.o'']
        @ post"
    if "\<not> (OPT_nostdlib Args \<or> OPT_nostartfiles Args)"
  proof -
    have m: "linking_mode_flags Args = [''-Bstatic'']"
      using assms(1) by (simp add: linking_mode_flags_def)
    have s: "startup_files H Args = [GetFilePath H ''crt0T.o'', GetFilePath H ''crti.o'']"
      using assms(1) that by (simp add: startup_files_def)
    have "Arguments cmd = leading_flags H D Args
        @ [''-Bstatic'', ''-o'', Output, GetFilePath H ''crt0T.o'', GetFilePath H ''crti.o'']
        @ (OPT_L Args @ OPT_u Args @ FilePathLibArgs H (FilePaths TC) Args
           @ lto_flags H D Output Inputs Args @ LinkerInputs H Inputs Args
           @ default_libs H D Args)"
      by (simp add: ConstructJob_Arguments [OF assms(2)] m s)
    then show ?thesis by blast
  qed
  then show ?thesis
    using count_Arguments_static [OF assms] by blast
qed

theorem static_link_flags_witness:
  "\<exists>cmd. ConstructJob host0 driver0 tc0 ''a.out'' [''main.o'']
            (args0\<lparr>OPT_static := True, OPT_rdynamic := True\<rparr>) = Inr cmd
     \<and> count_list (Arguments cmd) ''-dynamic-linker'' = 0
     \<and> count_list (Arguments cmd) ''-Bshareable'' = 0
     \<and> count_list (Arguments cmd) ''-export-dynamic'' = 0
     \<and> (\<exists>pre post. Arguments cmd =
            pre @ [''-Bstatic'', ''-o'', ''a.out'', ''crt0T.o'', ''crti.o''] @ post)"
proof -
  have s: "OPT_static (args0\<lparr>OPT_static := True, OPT_rdynamic := True\<rparr>)"
    by simp
  have p: "passed_through host0 driver0 tc0 ''a.out'' [''main.o'']
      (args0\<lparr>OPT_static := True, OPT_rdynamic := True\<rparr>) =
    [''a.out'', ''crt0T.o'', ''crti.o'', ''-L/target/System/Libraries'',
     ''-L/target/Local/Libraries'', ''main.o'', ''libclang_rt.builtins.a'']"
    by (simp add: passed_through_def job_eval split del: if_split)
  show ?thesis
    using static_link_flags [OF s static_job] static_job
    by (simp add: p host0_def args0_def)
qed

text \<open>
  C1 as stated fails: the output file name is passed on as it is, so a static link whose
  output file is named \<^verbatim>\<open>-export-dynamic\<close> has that string among its arguments.
\<close>

theorem static_link_flags_counterexample:
  "OPT_static (args0\<lparr>OPT_static := True\<rparr>)
   \<and> ConstructJob host0 driver0 tc0 ''-export-dynamic'' [''main.o'']
        (args0\<lparr>OPT_static := True\<rparr>) =
      Inr \<lparr>Executable = ''ld.lld'',
        Arguments = [''-znorelro'', ''--sysroot=/target'', ''-Bstatic'', ''-o'',
          ''-export-dynamic'', ''crt0T.o'', ''crti.o'', ''-L/target/System/Libraries'',
          ''-L/target/Local/Libraries'', ''main.o'', ''-Bstatic'', ''libclang_rt.builtins.a'',
          ''-lc'']\<rparr>
   \<and> ''-export-dynamic'' \<in> set [''-znorelro'', ''--sysroot=/target'', ''-Bstatic'', ''-o'',
          ''-export-dynamic'', ''crt0T.o'', ''crti.o'', ''-L/target/System/Libraries'',
          ''-L/target/Local/Libraries'', ''main.o'', ''-Bstatic'', ''libclang_rt.builtins.a'',
          ''-lc'']"
  by (simp add: job_eval split del: if_split)

subsection \<open>The hardening flag and the output flag\<close>

text \<open>
  C3, as amended. \<open>ConstructJob\<close> itself emits \<^verbatim>\<open>-znorelro\<close> exactly once, as the
  first argument, and \<^verbatim>\<open>-o\<close> with the output file name exactly once: each occurs in
  the command once more than among the strings passed through. The \<^verbatim>\<open>-o\<close> pair comes
  right after the last argument of the linking mode group, \<^verbatim>\<open>-Bstatic\<close> for a static
  link and \<^verbatim>\<open>--enable-new-dtags\<close> otherwise, and neither \<^verbatim>\<open>-o\<close> nor
  \<^verbatim>\<open>-znorelro\<close> stands between the first argument and that one.
\<close>

theorem hardening_and_output_flags:
  assumes "ConstructJob H D TC Output Inputs Args = Inr cmd"
  shows "count_list (Arguments cmd) ''-znorelro'' =
           1 + count_list (passed_through H D TC Output Inputs Args) ''-znorelro''
       \<and> count_list (Arguments cmd) ''-o'' =
           1 + count_list (passed_through H D TC Output Inputs Args) ''-o''
       \<and> (\<exists>pre post. Arguments cmd =
             ''-znorelro'' # pre
               @ [if OPT_static Args then ''-Bstatic'' else ''--enable-new-dtags'',
                  ''-o'', Output] @ post
             \<and> ''-o'' \<notin> set pre \<and> ''-znorelro'' \<notin> set pre)"
proof -
  define pre where "pre = tl (leading_flags H D Args) @ butlast (linking_mode_flags Args)"
  define post where "post = startup_files H Args @ OPT_L Args @ OPT_u Args
    @ FilePathLibArgs H (FilePaths TC) Args @ lto_flags H D Output Inputs Args
    @ LinkerInputs H Inputs Args @ default_libs H D Args"
  have l: "leading_flags H D Args = ''-znorelro'' # tl (leading_flags H D Args)"
    by (simp add: leading_flags_def)
  have m: "linking_mode_flags Args = butlast (linking_mode_flags Args)
      @ [if OPT_static Args then ''-Bstatic'' else ''--enable-new-dtags'']"
    by (simp add: linking_mode_flags_def)
  have "Arguments cmd = leading_flags H D Args @ linking_mode_flags Args
      @ [''-o'', Output] @ post"
    by (simp add: ConstructJob_Arguments [OF assms] post_def)
  then have "Arguments cmd = (''-znorelro'' # tl (leading_flags H D Args))
      @ (butlast (linking_mode_flags Args)
           @ [if OPT_static Args then ''-Bstatic'' else ''--enable-new-dtags''])
      @ [''-o'', Output] @ post"
    using l m by simp
  then have e: "Arguments cmd = ''-znorelro'' # pre
      @ [if OPT_static Args then ''-Bstatic'' else ''--enable-new-dtags'', ''-o'', Output]
      @ post"
    by (simp add: pre_def)
  have n: "''-o'' \<notin> set pre" "''-znorelro'' \<notin> set pre"
    by (simp_all add: pre_def leading_flags_def linking_mode_flags_def)
  show ?thesis
    using count_Arguments_once [OF assms] e n by blast
qed

theorem hardening_and_output_flags_witness:
  "\<exists>cmd. ConstructJob host0 driver0 tc0 ''a.out'' [''main.o''] args0 = Inr cmd
     \<and> count_list (Arguments cmd) ''-znorelro'' = 1
     \<and> count_list (Arguments cmd) ''-o'' = 1
     \<and> (\<exists>pre post. Arguments cmd =
            ''-znorelro'' # pre @ [''--enable-new-dtags'', ''-o'', ''a.out''] @ post
            \<and> ''-o'' \<notin> set pre \<and> ''-znorelro'' \<notin> set pre)"
proof -
  have p: "passed_through host0 driver0 tc0 ''a.out'' [''main.o''] args0 =
    [''a.out'', ''crt0.o'', ''-L/target/System/Libraries'',
     ''-L/target/Local/Libraries'', ''main.o'', ''libclang_rt.builtins.a'']"
    by (simp add: passed_through_def job_eval split del: if_split)
  have s: "\<not> OPT_static args0"
    by (simp add: args0_def)
  show ?thesis
    using hardening_and_output_flags [OF plain_job] plain_job s
    by (simp add: p)
qed

text \<open>
  C3 as stated fails: a link whose output file is named \<^verbatim>\<open>-znorelro\<close> has that string
  twice among its arguments, once from the job and once as the output file name.
\<close>

theorem hardening_and_output_flags_counterexample:
  "ConstructJob host0 driver0 tc0 ''-znorelro'' [''main.o''] args0 =
     Inr \<lparr>Executable = ''ld.lld'',
        Arguments = [''-znorelro'', ''--sysroot=/target'', ''-dynamic-linker'', ''/sbin/ldyldo'',
          ''--enable-new-dtags'', ''-o'', ''-znorelro'', ''crt0.o'',
          ''-L/target/System/Libraries'', ''-L/target/Local/Libraries'',
          ''main.o'', ''libclang_rt.builtins.a'', ''-lc'']\<rparr>
   \<and> count_list [''-znorelro'', ''--sysroot=/target'', ''-dynamic-linker'', ''/sbin/ldyldo'',
          ''--enable-new-dtags'', ''-o'', ''-znorelro'', ''crt0.o'',
          ''-L/target/System/Libraries'', ''-L/target/Local/Libraries'',
          ''main.o'', ''libclang_rt.builtins.a'', ''-lc''] ''-znorelro'' = 2"
  by (simp add: job_eval split del: if_split)

subsection \<open>Shared links\<close>

text \<open>
  C2. With \<^verbatim>\<open>-shared\<close>, \<open>IsPIE\<close> is false whatever \<^verbatim>\<open>-pie\<close> and the platform
  default are. For a link that is not also static (the spec's invariant of a link
  specification: static and shared exclude each other), the command begins with the flags
  shown, without \<^verbatim>\<open>-pie\<close>, and the startup file selected after the output file name is
  \<^verbatim>\<open>crt0S.o\<close>, and only it, unless \<^verbatim>\<open>-nostdlib\<close> or \<^verbatim>\<open>-nostartfiles\<close> skips the
  startup files.
\<close>

theorem shared_link_not_pie:
  assumes "OPT_shared Args"
  shows "\<not> IsPIE H Args
    \<and> (\<not> OPT_static Args \<longrightarrow>
        (\<forall>cmd. ConstructJob H D TC Output Inputs Args = Inr cmd \<longrightarrow>
          (\<exists>post. Arguments cmd =
             [''-znorelro''] @ (if SysRoot D \<noteq> [] then [''--sysroot='' @ SysRoot D] else [])
               @ (if OPT_s Args then [''-s''] else [])
               @ (if OPT_rdynamic Args then [''-export-dynamic''] else [])
               @ [''-Bshareable'', ''--enable-new-dtags'', ''-o'', Output]
               @ (if OPT_nostdlib Args \<or> OPT_nostartfiles Args then []
                  else [GetFilePath H ''crt0S.o''])
               @ post)))"
proof -
  have pie: "\<not> IsPIE H Args"
    using assms by (simp add: IsPIE_def)
  have "\<exists>post. Arguments cmd =
             [''-znorelro''] @ (if SysRoot D \<noteq> [] then [''--sysroot='' @ SysRoot D] else [])
               @ (if OPT_s Args then [''-s''] else [])
               @ (if OPT_rdynamic Args then [''-export-dynamic''] else [])
               @ [''-Bshareable'', ''--enable-new-dtags'', ''-o'', Output]
               @ (if OPT_nostdlib Args \<or> OPT_nostartfiles Args then []
                  else [GetFilePath H ''crt0S.o''])
               @ post"
    if dyn: "\<not> OPT_static Args" and job: "ConstructJob H D TC Output Inputs Args = Inr cmd"
    for cmd
  proof -
    have l: "leading_flags H D Args =
        [''-znorelro''] @ (if SysRoot D \<noteq> [] then [''--sysroot='' @ SysRoot D] else [])
          @ (if OPT_s Args then [''-s''] else [])"
      using pie by (simp add: leading_flags_def)
    have m: "linking_mode_flags Args =
        (if OPT_rdynamic Args then [''-export-dynamic''] else [])
          @ [''-Bshareable'', ''--enable-new-dtags'']"
      using assms dyn by (simp add: linking_mode_flags_def)
    have s: "startup_files H Args =
        (if OPT_nostdlib Args \<or> OPT_nostartfiles Args then []
         else [GetFilePath H ''crt0S.o''])"
      using assms dyn by (simp add: startup_files_def)
    have "Arguments cmd =
        ([''-znorelro''] @ (if SysRoot D \<noteq> [] then [''--sysroot='' @ SysRoot D] else [])
          @ (if OPT_s Args then [''-s''] else [])
          @ (if OPT_rdynamic Args then [''-export-dynamic''] else [])
          @ [''-Bshareable'', ''--enable-new-dtags'', ''-o'', Output]
          @ (if OPT_nostdlib Args \<or> OPT_nostartfiles Args then []
             else [GetFilePath H ''crt0S.o'']))
          @ (OPT_L Args @ OPT_u Args @ FilePathLibArgs H (FilePaths TC) Args
             @ lto_flags H D Output Inputs Args @ LinkerInputs H Inputs Args
             @ default_libs H D Args)"
      unfolding ConstructJob_Arguments [OF job] l m s by (simp only: append_assoc append.simps)
    then show ?thesis
      by (metis append_assoc)
  qed
  with pie show ?thesis by blast
qed

theorem shared_link_not_pie_witness:
  "\<not> IsPIE host0 (args0\<lparr>OPT_shared := True, OPT_pie := True\<rparr>)
   \<and> (\<exists>cmd post. ConstructJob host0 driver0 tc0 ''libx.so'' [''x.o'']
          (args0\<lparr>OPT_shared := True, OPT_pie := True\<rparr>) = Inr cmd
        \<and> Arguments cmd =
            [''-znorelro'', ''--sysroot=/target'', ''-Bshareable'', ''--enable-new-dtags'',
             ''-o'', ''libx.so'', ''crt0S.o''] @ post)"
proof -
  have s: "OPT_shared (args0\<lparr>OPT_shared := True, OPT_pie := True\<rparr>)"
    by simp
  show ?thesis
    using shared_link_not_pie [OF s, of host0 driver0 tc0 "''libx.so''" "[''x.o'']"] shared_job
    by (simp add: args0_def driver0_def host0_def)
qed

subsection \<open>The C++ standard library scope\<close>

lemma link_state_cxx_stdlib_group: "link_state s (cxx_stdlib_group Args) = s"
  by (cases s) (simp add: link_state_def cxx_stdlib_group_def)

lemma link_state_before_pop:
  assumes "OPT_static_libstdcxx Args \<and> \<not> OPT_static Args \<longrightarrow> m = Dynamic"
  shows "link_state (m, saved) (butlast (cxx_stdlib_group Args)) = (m, m # saved)"
  using assms by (simp add: link_state_def cxx_stdlib_group_def)

lemma count_push_pop:
  "count_list (cxx_stdlib_group Args) ''--push-state'' = 1"
  "count_list (cxx_stdlib_group Args) ''--pop-state'' = 1"
  by (simp_all add: cxx_stdlib_group_def)

lemma ConstructJob_Inr_Libcxx:
  assumes "ConstructJob H D TC Output Inputs Args = Inr cmd" "links_cxx_stdlib H D Args"
  shows "GetCXXStdlibType H Args = CST_Libcxx"
  using assms by (auto simp: ConstructJob_shape split: if_splits)

text \<open>
  C4. When neither \<^verbatim>\<open>-nostdlib\<close> nor \<^verbatim>\<open>-nodefaultlibs\<close> is given, the driver is in
  C++ mode and the tool chain links a C++ standard library, every command has, in this
  order and next to each other: \<^verbatim>\<open>--push-state\<close>, \<^verbatim>\<open>--as-needed\<close>, then
  \<^verbatim>\<open>-Bstatic\<close> exactly when \<^verbatim>\<open>-static-libstdc++\<close> is given and \<^verbatim>\<open>-static\<close> is not,
  then the arguments of \<open>AddCXXStdlibLibArgs\<close>, then \<^verbatim>\<open>-Bdynamic\<close> under that same
  condition, then \<^verbatim>\<open>-lopenlibm\<close>, then \<^verbatim>\<open>--pop-state\<close>. That scope has one
  \<^verbatim>\<open>--push-state\<close> and one \<^verbatim>\<open>--pop-state\<close>, and a linker that reads it leaves it in
  the mode, and with the saved modes, it entered it with. Before \<^verbatim>\<open>--pop-state\<close> the
  mode is already the one at entry, provided that mode was dynamic where the scope
  switches to static and back.
\<close>

theorem cxx_stdlib_scope:
  assumes "\<not> OPT_nostdlib Args" "\<not> OPT_nodefaultlibs Args" "CCCIsCXX D"
    "ShouldLinkCXXStdlib H Args"
    and job: "ConstructJob H D TC Output Inputs Args = Inr cmd"
  shows "\<exists>pre cxx body post.
      AddCXXStdlibLibArgs H Args [] = Inr cxx
    \<and> body = [''--push-state'', ''--as-needed'']
        @ (if OPT_static_libstdcxx Args \<and> \<not> OPT_static Args then [''-Bstatic''] else [])
        @ cxx
        @ (if OPT_static_libstdcxx Args \<and> \<not> OPT_static Args then [''-Bdynamic''] else [])
        @ [''-lopenlibm'']
    \<and> Arguments cmd = pre @ body @ [''--pop-state''] @ post
    \<and> (\<forall>s. link_state s (body @ [''--pop-state'']) = s)
    \<and> (\<forall>m saved. (OPT_static_libstdcxx Args \<and> \<not> OPT_static Args \<longrightarrow> m = Dynamic) \<longrightarrow>
          link_state (m, saved) body = (m, m # saved))
    \<and> count_list (body @ [''--pop-state'']) ''--push-state'' = 1
    \<and> count_list (body @ [''--pop-state'']) ''--pop-state'' = 1"
proof -
  have links: "links_cxx_stdlib H D Args"
    using assms(1-4) by (simp add: links_cxx_stdlib_def)
  have lib: "GetCXXStdlibType H Args = CST_Libcxx"
    using ConstructJob_Inr_Libcxx [OF job links] .
  define cxx where
    "cxx = [''-lc++abi'', ''-lc++''] @ (if \<not> OPT_static Args then [''-lunwind''] else [])"
  define body where "body = [''--push-state'', ''--as-needed'']
        @ (if OPT_static_libstdcxx Args \<and> \<not> OPT_static Args then [''-Bstatic''] else [])
        @ cxx
        @ (if OPT_static_libstdcxx Args \<and> \<not> OPT_static Args then [''-Bdynamic''] else [])
        @ [''-lopenlibm'']"
  define pre where "pre = leading_flags H D Args @ linking_mode_flags Args
    @ [''-o'', Output] @ startup_files H Args @ OPT_L Args @ OPT_u Args
    @ FilePathLibArgs H (FilePaths TC) Args @ lto_flags H D Output Inputs Args
    @ LinkerInputs H Inputs Args @ (if OPT_static Args then [''-Bstatic''] else [])"
  define post where "post = RunTimeLibs H Args @ (if \<not> OPT_nolibc Args then [''-lc''] else [])"
  have c: "AddCXXStdlibLibArgs H Args [] = Inr cxx"
    using AddCXXStdlibLibArgs_appends [OF lib, of "[]"] by (simp add: cxx_def)
  have g: "cxx_stdlib_group Args = body @ [''--pop-state'']"
    by (simp add: cxx_stdlib_group_def body_def cxx_def)
  then have b: "butlast (cxx_stdlib_group Args) = body"
    by simp
  have d: "default_libs H D Args =
      (if OPT_static Args then [''-Bstatic''] else []) @ cxx_stdlib_group Args @ post"
    using assms(1-4) by (simp add: default_libs_def post_def)
  have a: "Arguments cmd = pre @ body @ [''--pop-state''] @ post"
    unfolding ConstructJob_Arguments [OF job] d pre_def g by (simp only: append_assoc)
  have s: "\<forall>s. link_state s (body @ [''--pop-state'']) = s"
    using link_state_cxx_stdlib_group [of _ Args] by (simp only: g) simp
  have r: "\<forall>m saved. (OPT_static_libstdcxx Args \<and> \<not> OPT_static Args \<longrightarrow> m = Dynamic) \<longrightarrow>
      link_state (m, saved) body = (m, m # saved)"
    using link_state_before_pop [of Args] by (simp only: b) simp
  have n: "count_list (body @ [''--pop-state'']) ''--push-state'' = 1"
    "count_list (body @ [''--pop-state'']) ''--pop-state'' = 1"
    using count_push_pop [of Args] by (simp_all only: g)
  from c body_def a s r n show ?thesis
    by blast
qed

lemma cxx_job:
  "ConstructJob host0 (driver0\<lparr>CCCIsCXX := True\<rparr>) tc0 ''a.out'' [''main.o'']
     (args0\<lparr>OPT_static_libstdcxx := True\<rparr>) =
   Inr \<lparr>Executable = ''ld.lld'',
        Arguments = [''-znorelro'', ''--sysroot=/target'', ''-dynamic-linker'', ''/sbin/ldyldo'',
          ''--enable-new-dtags'', ''-o'', ''a.out'', ''crt0.o'',
          ''-L/target/System/Libraries'', ''-L/target/Local/Libraries'', ''main.o'',
          ''--push-state'', ''--as-needed'', ''-Bstatic'', ''-lc++abi'', ''-lc++'', ''-lunwind'',
          ''-Bdynamic'', ''-lopenlibm'', ''--pop-state'',
          ''libclang_rt.builtins.a'', ''-lc'']\<rparr>"
  by (simp add: job_eval split del: if_split)

theorem cxx_stdlib_scope_witness:
  "\<exists>cmd pre post.
     ConstructJob host0 (driver0\<lparr>CCCIsCXX := True\<rparr>) tc0 ''a.out'' [''main.o'']
       (args0\<lparr>OPT_static_libstdcxx := True\<rparr>) = Inr cmd
   \<and> Arguments cmd = pre @ [''--push-state'', ''--as-needed'', ''-Bstatic'', ''-lc++abi'',
        ''-lc++'', ''-lunwind'', ''-Bdynamic'', ''-lopenlibm''] @ [''--pop-state''] @ post
   \<and> link_state (Static, []) ([''--push-state'', ''--as-needed'', ''-Bstatic'', ''-lc++abi'',
        ''-lc++'', ''-lunwind'', ''-Bdynamic'', ''-lopenlibm''] @ [''--pop-state''])
        = (Static, [])
   \<and> link_state (Dynamic, []) [''--push-state'', ''--as-needed'', ''-Bstatic'', ''-lc++abi'',
        ''-lc++'', ''-lunwind'', ''-Bdynamic'', ''-lopenlibm''] = (Dynamic, [Dynamic])"
proof -
  let ?A = "args0\<lparr>OPT_static_libstdcxx := True\<rparr>"
  let ?D = "driver0\<lparr>CCCIsCXX := True\<rparr>"
  have h: "\<not> OPT_nostdlib ?A" "\<not> OPT_nodefaultlibs ?A" "CCCIsCXX ?D"
    "ShouldLinkCXXStdlib host0 ?A"
    by (simp_all add: args0_def host0_def)
  have c: "AddCXXStdlibLibArgs host0 ?A [] = Inr [''-lc++abi'', ''-lc++'', ''-lunwind'']"
    by (simp add: AddCXXStdlibLibArgs_def host0_def args0_def push_back_def)
  from cxx_stdlib_scope [OF h cxx_job] obtain pre cxx body post where
    "AddCXXStdlibLibArgs host0 ?A [] = Inr cxx"
    and s: "body = [''--push-state'', ''--as-needed'']
        @ (if OPT_static_libstdcxx ?A \<and> \<not> OPT_static ?A then [''-Bstatic''] else [])
        @ cxx
        @ (if OPT_static_libstdcxx ?A \<and> \<not> OPT_static ?A then [''-Bdynamic''] else [])
        @ [''-lopenlibm'']"
    and a: "Arguments \<lparr>Executable = ''ld.lld'',
        Arguments = [''-znorelro'', ''--sysroot=/target'', ''-dynamic-linker'', ''/sbin/ldyldo'',
          ''--enable-new-dtags'', ''-o'', ''a.out'', ''crt0.o'',
          ''-L/target/System/Libraries'', ''-L/target/Local/Libraries'', ''main.o'',
          ''--push-state'', ''--as-needed'', ''-Bstatic'', ''-lc++abi'', ''-lc++'', ''-lunwind'',
          ''-Bdynamic'', ''-lopenlibm'', ''--pop-state'',
          ''libclang_rt.builtins.a'', ''-lc'']\<rparr> = pre @ body @ [''--pop-state''] @ post"
    and l: "\<forall>s. link_state s (body @ [''--pop-state'']) = s"
    and r: "\<forall>m saved. (OPT_static_libstdcxx ?A \<and> \<not> OPT_static ?A \<longrightarrow> m = Dynamic) \<longrightarrow>
          link_state (m, saved) body = (m, m # saved)"
    by blast
  with c have x: "cxx = [''-lc++abi'', ''-lc++'', ''-lunwind'']"
    by simp
  have sc: "body = [''--push-state'', ''--as-needed'', ''-Bstatic'', ''-lc++abi'',
        ''-lc++'', ''-lunwind'', ''-Bdynamic'', ''-lopenlibm'']"
    unfolding s x by (simp add: args0_def)
  from r have "link_state (Dynamic, []) body = (Dynamic, [Dynamic])"
    by simp
  with a l show ?thesis
    unfolding sc cxx_job by (intro exI conjI) (rule refl, simp, simp, simp)
qed

subsection \<open>Library search paths\<close>

lemma FilePaths_Kush:
  "FilePaths (Kush H D base) = FilePaths base
     @ (if SysRoot D \<noteq> []
        then [path_append H (SysRoot D) [''System'', ''Libraries''],
              path_append H (SysRoot D) [''Local'', ''Libraries'']]
        else [])"
  by (simp add: Kush_def Let_def)

lemma user_then_toolchain_paths:
  assumes "ConstructJob H D TC Output Inputs Args = Inr cmd"
  shows "\<exists>pre post. Arguments cmd =
    pre @ OPT_L Args @ OPT_u Args @ FilePathLibArgs H (FilePaths TC) Args @ post"
proof -
  have "Arguments cmd =
      (leading_flags H D Args @ linking_mode_flags Args @ [''-o'', Output]
         @ startup_files H Args)
      @ OPT_L Args @ OPT_u Args @ FilePathLibArgs H (FilePaths TC) Args
      @ (lto_flags H D Output Inputs Args @ LinkerInputs H Inputs Args @ default_libs H D Args)"
    unfolding ConstructJob_Arguments [OF assms] by (simp only: append_assoc)
  then show ?thesis by blast
qed

text \<open>
  C5. Every command has the user's \<^verbatim>\<open>-L\<close> arguments in their order, then the user's
  \<^verbatim>\<open>-u\<close> arguments in their order, then the arguments for the tool chain's library
  search paths; for a tool chain that the constructor built, these paths are the ones
  the base class left followed by \<^verbatim>\<open>System/Libraries\<close> and \<^verbatim>\<open>Local/Libraries\<close> under
  the sysroot, when a sysroot is configured.
\<close>

theorem user_paths_before_toolchain_paths:
  assumes "ConstructJob H D TC Output Inputs Args = Inr cmd"
  shows "(\<exists>pre post. Arguments cmd =
            pre @ OPT_L Args @ OPT_u Args @ FilePathLibArgs H (FilePaths TC) Args @ post)
    \<and> (\<forall>base. TC = Kush H D base \<longrightarrow>
          FilePaths TC = FilePaths base
            @ (if SysRoot D \<noteq> []
               then [path_append H (SysRoot D) [''System'', ''Libraries''],
                     path_append H (SysRoot D) [''Local'', ''Libraries'']]
               else []))"
  using user_then_toolchain_paths [OF assms] by (simp add: FilePaths_Kush)

lemma user_paths_job:
  "ConstructJob host0 driver0 tc0 ''a.out'' [''main.o'']
     (args0\<lparr>OPT_L := [''-L/opt/lib'', ''-L/usr/lib''], OPT_u := [''-u'', ''main'']\<rparr>) =
   Inr \<lparr>Executable = ''ld.lld'',
        Arguments = [''-znorelro'', ''--sysroot=/target'', ''-dynamic-linker'', ''/sbin/ldyldo'',
          ''--enable-new-dtags'', ''-o'', ''a.out'', ''crt0.o'',
          ''-L/opt/lib'', ''-L/usr/lib'', ''-u'', ''main'',
          ''-L/target/System/Libraries'', ''-L/target/Local/Libraries'',
          ''main.o'', ''libclang_rt.builtins.a'', ''-lc'']\<rparr>"
  by (simp add: job_eval split del: if_split)

theorem user_paths_before_toolchain_paths_witness:
  "\<exists>cmd pre post.
     ConstructJob host0 driver0 tc0 ''a.out'' [''main.o'']
       (args0\<lparr>OPT_L := [''-L/opt/lib'', ''-L/usr/lib''], OPT_u := [''-u'', ''main'']\<rparr>) = Inr cmd
   \<and> Arguments cmd = pre @ [''-L/opt/lib'', ''-L/usr/lib'', ''-u'', ''main'',
        ''-L/target/System/Libraries'', ''-L/target/Local/Libraries''] @ post
   \<and> FilePaths tc0 = [''/target/System/Libraries'', ''/target/Local/Libraries'']"
proof -
  let ?A = "args0\<lparr>OPT_L := [''-L/opt/lib'', ''-L/usr/lib''], OPT_u := [''-u'', ''main'']\<rparr>"
  have f: "FilePathLibArgs host0 (FilePaths tc0) ?A =
      [''-L/target/System/Libraries'', ''-L/target/Local/Libraries'']"
    by (simp add: FilePaths_tc0 host0_def)
  from user_paths_before_toolchain_paths [OF user_paths_job]
  obtain pre post where
    a: "Arguments \<lparr>Executable = ''ld.lld'',
        Arguments = [''-znorelro'', ''--sysroot=/target'', ''-dynamic-linker'', ''/sbin/ldyldo'',
          ''--enable-new-dtags'', ''-o'', ''a.out'', ''crt0.o'',
          ''-L/opt/lib'', ''-L/usr/lib'', ''-u'', ''main'',
          ''-L/target/System/Libraries'', ''-L/target/Local/Libraries'',
          ''main.o'', ''libclang_rt.builtins.a'', ''-lc'']\<rparr> =
      pre @ OPT_L ?A @ OPT_u ?A @ FilePathLibArgs host0 (FilePaths tc0) ?A @ post"
    and k: "\<forall>base. tc0 = Kush host0 driver0 base \<longrightarrow> FilePaths tc0 = FilePaths base
            @ (if SysRoot driver0 \<noteq> []
               then [path_append host0 (SysRoot driver0) [''System'', ''Libraries''],
                     path_append host0 (SysRoot driver0) [''Local'', ''Libraries'']]
               else [])"
    by blast
  from k have p: "FilePaths tc0 = [''/target/System/Libraries'', ''/target/Local/Libraries'']"
    by (simp add: tc0_def base0_def driver0_def host0_def)
  from a have "Arguments \<lparr>Executable = ''ld.lld'',
        Arguments = [''-znorelro'', ''--sysroot=/target'', ''-dynamic-linker'', ''/sbin/ldyldo'',
          ''--enable-new-dtags'', ''-o'', ''a.out'', ''crt0.o'',
          ''-L/opt/lib'', ''-L/usr/lib'', ''-u'', ''main'',
          ''-L/target/System/Libraries'', ''-L/target/Local/Libraries'',
          ''main.o'', ''libclang_rt.builtins.a'', ''-lc'']\<rparr> =
      pre @ [''-L/opt/lib'', ''-L/usr/lib'', ''-u'', ''main'',
        ''-L/target/System/Libraries'', ''-L/target/Local/Libraries''] @ post"
    unfolding f by (simp add: args0_def)
  with p show ?thesis
    unfolding user_paths_job by blast
qed

text \<open>
  C6, as amended. The constructor appends the two library search paths of the sysroot,
  the system one before the local one, to the tool chain's file paths, and in every
  command of a link job the arguments for the tool chain's file paths come after the
  user's \<^verbatim>\<open>-L\<close> and \<^verbatim>\<open>-u\<close> arguments, not before them.
\<close>

theorem toolchain_paths_after_user_paths:
  assumes "ConstructJob H D (Kush H D base) Output Inputs Args = Inr cmd"
  shows "\<exists>pre post. Arguments cmd =
     pre @ OPT_L Args @ OPT_u Args
       @ FilePathLibArgs H
           (FilePaths base
              @ (if SysRoot D \<noteq> []
                 then [path_append H (SysRoot D) [''System'', ''Libraries''],
                       path_append H (SysRoot D) [''Local'', ''Libraries'']]
                 else [])) Args
       @ post"
  using user_then_toolchain_paths [OF assms] by (simp add: FilePaths_Kush)

theorem toolchain_paths_after_user_paths_witness:
  "\<exists>cmd pre post.
     ConstructJob host0 driver0 (Kush host0 driver0 base0) ''a.out'' [''main.o'']
       (args0\<lparr>OPT_L := [''-L/opt/lib'', ''-L/usr/lib''], OPT_u := [''-u'', ''main'']\<rparr>) = Inr cmd
   \<and> Arguments cmd = pre @ [''-L/opt/lib'', ''-L/usr/lib'', ''-u'', ''main'']
        @ [''-L/target/System/Libraries'', ''-L/target/Local/Libraries''] @ post"
proof -
  let ?A = "args0\<lparr>OPT_L := [''-L/opt/lib'', ''-L/usr/lib''], OPT_u := [''-u'', ''main'']\<rparr>"
  have j: "ConstructJob host0 driver0 (Kush host0 driver0 base0) ''a.out'' [''main.o''] ?A =
    Inr \<lparr>Executable = ''ld.lld'',
        Arguments = [''-znorelro'', ''--sysroot=/target'', ''-dynamic-linker'', ''/sbin/ldyldo'',
          ''--enable-new-dtags'', ''-o'', ''a.out'', ''crt0.o'',
          ''-L/opt/lib'', ''-L/usr/lib'', ''-u'', ''main'',
          ''-L/target/System/Libraries'', ''-L/target/Local/Libraries'',
          ''main.o'', ''libclang_rt.builtins.a'', ''-lc'']\<rparr>"
    using user_paths_job by (simp only: tc0_def)
  from toolchain_paths_after_user_paths [OF j]
  obtain pre post where
    "Arguments \<lparr>Executable = ''ld.lld'',
        Arguments = [''-znorelro'', ''--sysroot=/target'', ''-dynamic-linker'', ''/sbin/ldyldo'',
          ''--enable-new-dtags'', ''-o'', ''a.out'', ''crt0.o'',
          ''-L/opt/lib'', ''-L/usr/lib'', ''-u'', ''main'',
          ''-L/target/System/Libraries'', ''-L/target/Local/Libraries'',
          ''main.o'', ''libclang_rt.builtins.a'', ''-lc'']\<rparr> =
     pre @ OPT_L ?A @ OPT_u ?A
       @ FilePathLibArgs host0
           (FilePaths base0
              @ (if SysRoot driver0 \<noteq> []
                 then [path_append host0 (SysRoot driver0) [''System'', ''Libraries''],
                       path_append host0 (SysRoot driver0) [''Local'', ''Libraries'']]
                 else [])) ?A
       @ post"
    by blast
  then have "Arguments \<lparr>Executable = ''ld.lld'',
        Arguments = [''-znorelro'', ''--sysroot=/target'', ''-dynamic-linker'', ''/sbin/ldyldo'',
          ''--enable-new-dtags'', ''-o'', ''a.out'', ''crt0.o'',
          ''-L/opt/lib'', ''-L/usr/lib'', ''-u'', ''main'',
          ''-L/target/System/Libraries'', ''-L/target/Local/Libraries'',
          ''main.o'', ''libclang_rt.builtins.a'', ''-lc'']\<rparr> =
     pre @ [''-L/opt/lib'', ''-L/usr/lib'', ''-u'', ''main'']
        @ [''-L/target/System/Libraries'', ''-L/target/Local/Libraries''] @ post"
    by (simp add: args0_def base0_def driver0_def host0_def)
  then show ?thesis
    unfolding j by blast
qed

text \<open>
  C6 as stated fails: with a user path \<^verbatim>\<open>-L/opt/lib\<close> the command has it before the
  two paths of the sysroot, and in no way after them.
\<close>

theorem toolchain_paths_first_counterexample:
  "ConstructJob host0 driver0 (Kush host0 driver0 base0) ''a.out'' [''main.o'']
       (args0\<lparr>OPT_L := [''-L/opt/lib'']\<rparr>) =
     Inr \<lparr>Executable = ''ld.lld'',
        Arguments = [''-znorelro'', ''--sysroot=/target'', ''-dynamic-linker'', ''/sbin/ldyldo'',
          ''--enable-new-dtags'', ''-o'', ''a.out'', ''crt0.o'', ''-L/opt/lib'',
          ''-L/target/System/Libraries'', ''-L/target/Local/Libraries'',
          ''main.o'', ''libclang_rt.builtins.a'', ''-lc'']\<rparr>
   \<and> FilePathLibArgs host0 (FilePaths (Kush host0 driver0 base0))
        (args0\<lparr>OPT_L := [''-L/opt/lib'']\<rparr>) =
       [''-L/target/System/Libraries'', ''-L/target/Local/Libraries'']
   \<and> \<not> (\<exists>pre mid post.
        [''-znorelro'', ''--sysroot=/target'', ''-dynamic-linker'', ''/sbin/ldyldo'',
          ''--enable-new-dtags'', ''-o'', ''a.out'', ''crt0.o'', ''-L/opt/lib'',
          ''-L/target/System/Libraries'', ''-L/target/Local/Libraries'',
          ''main.o'', ''libclang_rt.builtins.a'', ''-lc''] =
        pre @ [''-L/target/System/Libraries'', ''-L/target/Local/Libraries''] @ mid
          @ [''-L/opt/lib''] @ post)"
proof (intro conjI)
  show "ConstructJob host0 driver0 (Kush host0 driver0 base0) ''a.out'' [''main.o'']
       (args0\<lparr>OPT_L := [''-L/opt/lib'']\<rparr>) =
     Inr \<lparr>Executable = ''ld.lld'',
        Arguments = [''-znorelro'', ''--sysroot=/target'', ''-dynamic-linker'', ''/sbin/ldyldo'',
          ''--enable-new-dtags'', ''-o'', ''a.out'', ''crt0.o'', ''-L/opt/lib'',
          ''-L/target/System/Libraries'', ''-L/target/Local/Libraries'',
          ''main.o'', ''libclang_rt.builtins.a'', ''-lc'']\<rparr>"
    using FilePaths_tc0 unfolding tc0_def
    by (simp add: ConstructJob_shape view_defs host0_def driver0_def args0_def
        split del: if_split)
  show "FilePathLibArgs host0 (FilePaths (Kush host0 driver0 base0))
        (args0\<lparr>OPT_L := [''-L/opt/lib'']\<rparr>) =
       [''-L/target/System/Libraries'', ''-L/target/Local/Libraries'']"
    using FilePaths_tc0 unfolding tc0_def by (simp add: host0_def)
  show "\<not> (\<exists>pre mid post.
        [''-znorelro'', ''--sysroot=/target'', ''-dynamic-linker'', ''/sbin/ldyldo'',
          ''--enable-new-dtags'', ''-o'', ''a.out'', ''crt0.o'', ''-L/opt/lib'',
          ''-L/target/System/Libraries'', ''-L/target/Local/Libraries'',
          ''main.o'', ''libclang_rt.builtins.a'', ''-lc''] =
        pre @ [''-L/target/System/Libraries'', ''-L/target/Local/Libraries''] @ mid
          @ [''-L/opt/lib''] @ post)"
    by (auto simp: Cons_eq_append_conv)
qed

subsection \<open>Link-time optimization\<close>

text \<open>
  C9. With LTO enabled, a job with no input fails the assertion
  \<^verbatim>\<open>Must have at least one input.\<close> and yields no command. A job with at least one
  input never fails it: either the job reaches the unreachable case of an unsupported C++
  standard library, or it yields a command in which the LTO options for the first input,
  thin when the LTO mode is thin, stand right before the linker inputs.
\<close>

theorem lto_needs_an_input:
  assumes "isUsingLTO D"
  shows "(Inputs = [] \<longrightarrow>
            ConstructJob H D TC Output Inputs Args =
              Inl (AssertionFailed ''Must have at least one input.''))
    \<and> (\<forall>Input0 rest. Inputs = Input0 # rest \<longrightarrow>
          (links_cxx_stdlib H D Args \<and> GetCXXStdlibType H Args \<noteq> CST_Libcxx
             \<and> ConstructJob H D TC Output Inputs Args =
                 Inl (Unreachable ''invalid stdlib name''))
          \<or> (\<exists>cmd pre post.
                ConstructJob H D TC Output Inputs Args = Inr cmd
              \<and> Arguments cmd =
                  pre @ LTOOptions H Args Output Input0 (LTOMode D = LTOK_Thin)
                    @ LinkerInputs H Inputs Args @ post))"
proof (intro conjI allI impI)
  assume "Inputs = []"
  with assms show "ConstructJob H D TC Output Inputs Args =
      Inl (AssertionFailed ''Must have at least one input.'')"
    by (rule ConstructJob_assert)
next
  fix Input0 rest
  assume i: "Inputs = Input0 # rest"
  show "(links_cxx_stdlib H D Args \<and> GetCXXStdlibType H Args \<noteq> CST_Libcxx
             \<and> ConstructJob H D TC Output Inputs Args =
                 Inl (Unreachable ''invalid stdlib name''))
          \<or> (\<exists>cmd pre post.
                ConstructJob H D TC Output Inputs Args = Inr cmd
              \<and> Arguments cmd =
                  pre @ LTOOptions H Args Output Input0 (LTOMode D = LTOK_Thin)
                    @ LinkerInputs H Inputs Args @ post)"
  proof (cases "links_cxx_stdlib H D Args \<and> GetCXXStdlibType H Args \<noteq> CST_Libcxx")
    case True
    with i show ?thesis by (simp add: ConstructJob_shape)
  next
    case False
    let ?cmd = "\<lparr>Executable = GetLinkerPath H,
      Arguments = leading_flags H D Args @ linking_mode_flags Args
        @ [''-o'', Output] @ startup_files H Args
        @ OPT_L Args @ OPT_u Args @ FilePathLibArgs H (FilePaths TC) Args
        @ lto_flags H D Output Inputs Args @ LinkerInputs H Inputs Args
        @ default_libs H D Args\<rparr>"
    have j: "ConstructJob H D TC Output Inputs Args = Inr ?cmd"
      using False i by (simp add: ConstructJob_shape)
    have l: "lto_flags H D Output Inputs Args =
        LTOOptions H Args Output Input0 (LTOMode D = LTOK_Thin)"
      using assms i by (simp add: lto_flags_def)
    have "Arguments ?cmd =
        (leading_flags H D Args @ linking_mode_flags Args
          @ [''-o'', Output] @ startup_files H Args
          @ OPT_L Args @ OPT_u Args @ FilePathLibArgs H (FilePaths TC) Args)
        @ LTOOptions H Args Output Input0 (LTOMode D = LTOK_Thin)
        @ LinkerInputs H Inputs Args @ default_libs H D Args"
      by (simp add: l)
    with j show ?thesis by blast
  qed
qed

lemma lto_job:
  "ConstructJob host0 (driver0\<lparr>LTOMode := LTOK_Thin\<rparr>) tc0 ''a.out'' [''main.o'', ''lib.o'']
     args0 =
   Inr \<lparr>Executable = ''ld.lld'',
        Arguments = [''-znorelro'', ''--sysroot=/target'', ''-dynamic-linker'', ''/sbin/ldyldo'',
          ''--enable-new-dtags'', ''-o'', ''a.out'', ''crt0.o'',
          ''-L/target/System/Libraries'', ''-L/target/Local/Libraries'',
          ''-plugin-opt=thinlto'', ''main.o'', ''lib.o'', ''libclang_rt.builtins.a'', ''-lc'']\<rparr>"
  by (simp add: job_eval split del: if_split)

theorem lto_needs_an_input_witness:
  "ConstructJob host0 (driver0\<lparr>LTOMode := LTOK_Thin\<rparr>) tc0 ''a.out'' [] args0 =
     Inl (AssertionFailed ''Must have at least one input.'')
   \<and> (\<exists>cmd pre post.
        ConstructJob host0 (driver0\<lparr>LTOMode := LTOK_Thin\<rparr>) tc0 ''a.out''
          [''main.o'', ''lib.o''] args0 = Inr cmd
      \<and> Arguments cmd = pre @ [''-plugin-opt=thinlto'', ''main.o'', ''lib.o''] @ post)"
proof -
  let ?D = "driver0\<lparr>LTOMode := LTOK_Thin\<rparr>"
  have u: "isUsingLTO ?D"
    by (simp add: isUsingLTO_def)
  have e: "ConstructJob host0 ?D tc0 ''a.out'' [] args0 =
     Inl (AssertionFailed ''Must have at least one input.'')"
    using lto_needs_an_input [OF u, of "[]" host0 tc0 "''a.out''" args0] by simp
  have "(links_cxx_stdlib host0 ?D args0 \<and> GetCXXStdlibType host0 args0 \<noteq> CST_Libcxx
             \<and> ConstructJob host0 ?D tc0 ''a.out'' [''main.o'', ''lib.o''] args0 =
                 Inl (Unreachable ''invalid stdlib name''))
          \<or> (\<exists>cmd pre post.
                ConstructJob host0 ?D tc0 ''a.out'' [''main.o'', ''lib.o''] args0 = Inr cmd
              \<and> Arguments cmd =
                  pre @ LTOOptions host0 args0 ''a.out'' ''main.o'' (LTOMode ?D = LTOK_Thin)
                    @ LinkerInputs host0 [''main.o'', ''lib.o''] args0 @ post)"
    using lto_needs_an_input [OF u, of "[''main.o'', ''lib.o'']" host0 tc0 "''a.out''" args0]
    by simp
  then have "\<exists>cmd pre post.
        ConstructJob host0 ?D tc0 ''a.out'' [''main.o'', ''lib.o''] args0 = Inr cmd
      \<and> Arguments cmd = pre @ [''-plugin-opt=thinlto'', ''main.o'', ''lib.o''] @ post"
    by (simp add: lto_job host0_def)
  with e show ?thesis by blast
qed

end
